theory Spec2Isabelle
  imports Main
begin

section \<open>The project selector: data\<close>

text \<open>
  The component \<open>ProjectSelector\<close> of \<open>ui/src/components/ProjectSelector.tsx\<close>.
  Its props \<open>projects\<close> and \<open>isLoading\<close> are read-only inputs; the prop
  \<open>selectedProject\<close> is owned by the caller and changed only through the callback
  \<open>onSelectProject\<close>. The five \<open>useState\<close> cells are the component's own state.
\<close>

record project_stats =
  stats_total :: int
  stats_passing :: int
  stats_percentage :: int

record project_summary =
  name :: string
  path :: string
  is_detached :: bool
  stats :: project_stats

record props =
  projects :: "project_summary list"
  isLoading :: bool

datatype action = Delete | Detach | Reattach

text \<open>How an awaited mutation call settles: the promise resolves or it rejects.\<close>

datatype outcome = Resolved | Rejected

text \<open>The two flags of a \<open>React.MouseEvent\<close> that the click handlers set.\<close>

record mouse_event =
  propagationStopped :: bool
  defaultPrevented :: bool

text \<open>
  The state: the \<open>useState\<close> cells (\<open>isOpen\<close> to \<open>projectToReattach\<close>), the caller's
  \<open>selectedProject\<close>, the \<open>isPending\<close> flag of each mutation hook, and two logs that
  record what the component did to the outside: the mutation calls it dispatched, in
  order, and the messages it gave to \<open>console.error\<close>.
\<close>

record state =
  isOpen :: bool
  showNewProjectModal :: bool
  projectToDelete :: "string option"
  projectToDetach :: "string option"
  projectToReattach :: "string option"
  selectedProject :: "string option"
  deleteProject_isPending :: bool
  detachProject_isPending :: bool
  reattachProject_isPending :: bool
  calls :: "(action \<times> string) list"
  console_errors :: "string list"

definition initial :: "string option \<Rightarrow> state" where
  "initial sel =
     \<lparr> isOpen = False, showNewProjectModal = False,
       projectToDelete = None, projectToDetach = None, projectToReattach = None,
       selectedProject = sel,
       deleteProject_isPending = False, detachProject_isPending = False,
       reattachProject_isPending = False,
       calls = [], console_errors = [] \<rparr>"

section \<open>State setters, callbacks and the mutation hooks\<close>

definition setIsOpen :: "bool \<Rightarrow> state \<Rightarrow> state" where
  "setIsOpen b st = st\<lparr>isOpen := b\<rparr>"

definition setShowNewProjectModal :: "bool \<Rightarrow> state \<Rightarrow> state" where
  "setShowNewProjectModal b st = st\<lparr>showNewProjectModal := b\<rparr>"

definition setProjectToDelete :: "string option \<Rightarrow> state \<Rightarrow> state" where
  "setProjectToDelete v st = st\<lparr>projectToDelete := v\<rparr>"

definition setProjectToDetach :: "string option \<Rightarrow> state \<Rightarrow> state" where
  "setProjectToDetach v st = st\<lparr>projectToDetach := v\<rparr>"

definition setProjectToReattach :: "string option \<Rightarrow> state \<Rightarrow> state" where
  "setProjectToReattach v st = st\<lparr>projectToReattach := v\<rparr>"

text \<open>
  Modelled from the spec: the callback \<open>onSelectProject\<close> is supplied by the caller, whose
  code is not part of the component. The Selection Controller's contract is
  "\<open>select(name | none)\<close> sets current selection unconditionally".
\<close>

definition onSelectProject :: "string option \<Rightarrow> state \<Rightarrow> state" where
  "onSelectProject v st = st\<lparr>selectedProject := v\<rparr>"

definition console_error :: "string \<Rightarrow> state \<Rightarrow> state" where
  "console_error msg st = st\<lparr>console_errors := console_errors st @ [msg]\<rparr>"

definition stopPropagation :: "mouse_event \<Rightarrow> mouse_event" where
  "stopPropagation e = e\<lparr>propagationStopped := True\<rparr>"

definition preventDefault :: "mouse_event \<Rightarrow> mouse_event" where
  "preventDefault e = e\<lparr>defaultPrevented := True\<rparr>"

definition fresh_event :: mouse_event where
  "fresh_event = \<lparr> propagationStopped = False, defaultPrevented = False \<rparr>"

fun set_isPending :: "action \<Rightarrow> bool \<Rightarrow> state \<Rightarrow> state" where
  "set_isPending Delete b st = st\<lparr>deleteProject_isPending := b\<rparr>"
| "set_isPending Detach b st = st\<lparr>detachProject_isPending := b\<rparr>"
| "set_isPending Reattach b st = st\<lparr>reattachProject_isPending := b\<rparr>"

fun isPending :: "action \<Rightarrow> state \<Rightarrow> bool" where
  "isPending Delete st = deleteProject_isPending st"
| "isPending Detach st = detachProject_isPending st"
| "isPending Reattach st = reattachProject_isPending st"

text \<open>
  Modelled from the spec: the hooks \<open>useDeleteProject\<close>, \<open>useDetachProject\<close> and
  \<open>useReattachProject\<close> live in \<open>hooks/useProjects\<close>, which is not part of the
  component. The Mutation Dispatcher's contract is that each operation's \<open>isPending\<close>
  flag is "set before dispatch, cleared on settle, success or failure alike".
  \<open>mutateAsync\<close> is the call up to the point where the caller is suspended;
  \<open>mutation_settled\<close> is what the hook does when the call settles.
\<close>

definition mutateAsync :: "action \<Rightarrow> string \<Rightarrow> state \<Rightarrow> state" where
  "mutateAsync k p st = (set_isPending k True st)\<lparr>calls := calls st @ [(k, p)]\<rparr>"

definition mutation_settled :: "action \<Rightarrow> state \<Rightarrow> state" where
  "mutation_settled k st = set_isPending k False st"

text \<open>
  JavaScript's \<open>!x\<close> on a \<open>string | null\<close>: true for \<open>null\<close> and for the empty string.
\<close>

definition falsy :: "string option \<Rightarrow> bool" where
  "falsy v = (case v of None \<Rightarrow> True | Some s \<Rightarrow> s = [])"

section \<open>The handlers\<close>

definition handleProjectCreated :: "string \<Rightarrow> state \<Rightarrow> state" where
  "handleProjectCreated projectName st =
     setIsOpen False (onSelectProject (Some projectName) st)"

definition handleDeleteClick :: "mouse_event \<Rightarrow> string \<Rightarrow> state \<Rightarrow> mouse_event \<times> state" where
  "handleDeleteClick e projectName st =
     (preventDefault (stopPropagation e), setProjectToDelete (Some projectName) st)"

definition handleDetachClick :: "mouse_event \<Rightarrow> string \<Rightarrow> state \<Rightarrow> mouse_event \<times> state" where
  "handleDetachClick e projectName st =
     (preventDefault (stopPropagation e), setProjectToDetach (Some projectName) st)"

definition handleReattachClick :: "mouse_event \<Rightarrow> string \<Rightarrow> state \<Rightarrow> mouse_event \<times> state" where
  "handleReattachClick e projectName st =
     (preventDefault (stopPropagation e), setProjectToReattach (Some projectName) st)"

definition handleCancelDelete :: "state \<Rightarrow> state" where
  "handleCancelDelete st = setProjectToDelete None st"

text \<open>The two inline \<open>onCancel\<close> handlers of the detach and reattach dialogs.\<close>

definition onCancelDetach :: "state \<Rightarrow> state" where
  "onCancelDetach st = setProjectToDetach None st"

definition onCancelReattach :: "state \<Rightarrow> state" where
  "onCancelReattach st = setProjectToReattach None st"

text \<open>
  An \<open>async\<close> confirm handler runs in two parts. The first part runs when Confirm is
  clicked, up to the \<open>await\<close>: the guard, then the call of \<open>mutateAsync\<close>. Its result is
  \<open>None\<close> when the handler returned at the guard, and the state in which the handler
  is suspended otherwise. The second part runs when the call settles. It reads
  \<open>projectToDelete\<close> and \<open>selectedProject\<close> from the handler's closure, that is from
  the state \<open>st0\<close> in which Confirm was clicked, and applies the setters and
  \<open>onSelectProject\<close> to the state \<open>st\<close> of the moment.
\<close>

definition handleConfirmDelete_dispatch :: "state \<Rightarrow> state option" where
  "handleConfirmDelete_dispatch st =
     (if falsy (projectToDelete st) then None
      else case projectToDelete st of
             None \<Rightarrow> None
           | Some p \<Rightarrow> Some (mutateAsync Delete p st))"

definition handleConfirmDelete_settle :: "state \<Rightarrow> outcome \<Rightarrow> state \<Rightarrow> state" where
  "handleConfirmDelete_settle st0 oc st =
     (case oc of
        Resolved \<Rightarrow>
          setProjectToDelete None
            (if selectedProject st0 = projectToDelete st0 then onSelectProject None st else st)
      | Rejected \<Rightarrow>
          setProjectToDelete None (console_error ''Failed to delete project:'' st))"

definition handleConfirmDetach_dispatch :: "state \<Rightarrow> state option" where
  "handleConfirmDetach_dispatch st =
     (if falsy (projectToDetach st) then None
      else case projectToDetach st of
             None \<Rightarrow> None
           | Some p \<Rightarrow> Some (mutateAsync Detach p st))"

definition handleConfirmDetach_settle :: "outcome \<Rightarrow> state \<Rightarrow> state" where
  "handleConfirmDetach_settle oc st =
     (case oc of
        Resolved \<Rightarrow> setProjectToDetach None st
      | Rejected \<Rightarrow>
          setProjectToDetach None (console_error ''Failed to detach project:'' st))"

definition handleConfirmReattach_dispatch :: "state \<Rightarrow> state option" where
  "handleConfirmReattach_dispatch st =
     (if falsy (projectToReattach st) then None
      else case projectToReattach st of
             None \<Rightarrow> None
           | Some p \<Rightarrow> Some (mutateAsync Reattach p st))"

definition handleConfirmReattach_settle :: "outcome \<Rightarrow> state \<Rightarrow> state" where
  "handleConfirmReattach_settle oc st =
     (case oc of
        Resolved \<Rightarrow> setProjectToReattach None st
      | Rejected \<Rightarrow>
          setProjectToReattach None (console_error ''Failed to reattach project:'' st))"

text \<open>
  A whole run of a confirm handler, from the click to the return after the call has
  settled with the given outcome, nothing else happening in between.
\<close>

definition handleConfirmDelete :: "outcome \<Rightarrow> state \<Rightarrow> state" where
  "handleConfirmDelete oc st =
     (case handleConfirmDelete_dispatch st of
        None \<Rightarrow> st
      | Some st1 \<Rightarrow> handleConfirmDelete_settle st oc (mutation_settled Delete st1))"

definition handleConfirmDetach :: "outcome \<Rightarrow> state \<Rightarrow> state" where
  "handleConfirmDetach oc st =
     (case handleConfirmDetach_dispatch st of
        None \<Rightarrow> st
      | Some st1 \<Rightarrow> handleConfirmDetach_settle oc (mutation_settled Detach st1))"

definition handleConfirmReattach :: "outcome \<Rightarrow> state \<Rightarrow> state" where
  "handleConfirmReattach oc st =
     (case handleConfirmReattach_dispatch st of
        None \<Rightarrow> st
      | Some st1 \<Rightarrow> handleConfirmReattach_settle oc (mutation_settled Reattach st1))"

section \<open>The three confirmation flows, by action kind\<close>

fun pending :: "action \<Rightarrow> state \<Rightarrow> string option" where
  "pending Delete st = projectToDelete st"
| "pending Detach st = projectToDetach st"
| "pending Reattach st = projectToReattach st"

fun set_pending :: "action \<Rightarrow> string option \<Rightarrow> state \<Rightarrow> state" where
  "set_pending Delete v st = setProjectToDelete v st"
| "set_pending Detach v st = setProjectToDetach v st"
| "set_pending Reattach v st = setProjectToReattach v st"

fun handleClick :: "action \<Rightarrow> mouse_event \<Rightarrow> string \<Rightarrow> state \<Rightarrow> mouse_event \<times> state" where
  "handleClick Delete e p st = handleDeleteClick e p st"
| "handleClick Detach e p st = handleDetachClick e p st"
| "handleClick Reattach e p st = handleReattachClick e p st"

fun handleCancel :: "action \<Rightarrow> state \<Rightarrow> state" where
  "handleCancel Delete st = handleCancelDelete st"
| "handleCancel Detach st = onCancelDetach st"
| "handleCancel Reattach st = onCancelReattach st"

fun handleConfirm_dispatch :: "action \<Rightarrow> state \<Rightarrow> state option" where
  "handleConfirm_dispatch Delete st = handleConfirmDelete_dispatch st"
| "handleConfirm_dispatch Detach st = handleConfirmDetach_dispatch st"
| "handleConfirm_dispatch Reattach st = handleConfirmReattach_dispatch st"

fun handleConfirm_settle :: "action \<Rightarrow> state \<Rightarrow> outcome \<Rightarrow> state \<Rightarrow> state" where
  "handleConfirm_settle Delete st0 oc st = handleConfirmDelete_settle st0 oc st"
| "handleConfirm_settle Detach st0 oc st = handleConfirmDetach_settle oc st"
| "handleConfirm_settle Reattach st0 oc st = handleConfirmReattach_settle oc st"

fun handleConfirm :: "action \<Rightarrow> outcome \<Rightarrow> state \<Rightarrow> state" where
  "handleConfirm Delete oc st = handleConfirmDelete oc st"
| "handleConfirm Detach oc st = handleConfirmDetach oc st"
| "handleConfirm Reattach oc st = handleConfirmReattach oc st"

text \<open>The \<open>isOpen\<close> and \<open>isLoading\<close> props that the component gives to each \<open>ConfirmDialog\<close>.\<close>

fun dialog_isOpen :: "action \<Rightarrow> state \<Rightarrow> bool" where
  "dialog_isOpen Delete st = (projectToDelete st \<noteq> None)"
| "dialog_isOpen Detach st = (projectToDetach st \<noteq> None)"
| "dialog_isOpen Reattach st = (projectToReattach st \<noteq> None)"

fun dialog_isLoading :: "action \<Rightarrow> state \<Rightarrow> bool" where
  "dialog_isLoading Delete st = deleteProject_isPending st"
| "dialog_isLoading Detach st = detachProject_isPending st"
| "dialog_isLoading Reattach st = reattachProject_isPending st"

section \<open>The controls of the menu\<close>

text \<open>The \<open>onSelect\<close> handlers of a project row and of the "New Project" item.\<close>

definition onSelect_row :: "project_summary \<Rightarrow> state \<Rightarrow> state" where
  "onSelect_row project st = onSelectProject (Some (name project)) st"

definition onSelect_newProject :: "state \<Rightarrow> state" where
  "onSelect_newProject st = setShowNewProjectModal True st"

text \<open>
  Modelled from the spec: the menu component \<open>components/ui/dropdown-menu\<close> is not part
  of the component's file. The component hands it \<open>open={isOpen}\<close> and
  \<open>onOpenChange={setIsOpen}\<close>; by the spec, selecting an item "closes any open selection
  menu", so an item that is selected runs its \<open>onSelect\<close> handler and the menu then calls
  \<open>onOpenChange(false)\<close>.
\<close>

definition menu_item_selected :: "(state \<Rightarrow> state) \<Rightarrow> state \<Rightarrow> state" where
  "menu_item_selected onSelect st = setIsOpen False (onSelect st)"

definition row_selected :: "project_summary \<Rightarrow> state \<Rightarrow> state" where
  "row_selected project st = menu_item_selected (onSelect_row project) st"

text \<open>
  The icon buttons of a row: reattach on a detached project, detach on any other, delete
  on every row.
\<close>

fun icon_rendered :: "action \<Rightarrow> project_summary \<Rightarrow> bool" where
  "icon_rendered Delete project = True"
| "icon_rendered Detach project = (\<not> is_detached project)"
| "icon_rendered Reattach project = is_detached project"

text \<open>
  Modelled from the spec: a click on an icon button inside a row is first given to the
  button's \<open>onClick\<close> handler and then, unless that handler stopped its propagation,
  to the row, which takes it as a selection of the row ("the action click must not
  propagate to the row-select handler").
\<close>

definition icon_clicked :: "action \<Rightarrow> project_summary \<Rightarrow> state \<Rightarrow> state" where
  "icon_clicked k project st =
     (case handleClick k fresh_event (name project) st of
        (e, st') \<Rightarrow> if propagationStopped e then st' else row_selected project st')"

text \<open>
  The rows are rendered by \<open>projects.map\<close> inside the menu's content, which is on screen
  while \<open>open\<close> holds. A row carries no \<open>disabled\<close> prop. So a click on the row of
  \<open>project\<close> is possible when the menu is open and the project is in the list, and is
  then a selection of that row; otherwise there is no such row to click.
\<close>

definition row_clicked :: "props \<Rightarrow> project_summary \<Rightarrow> state \<Rightarrow> state" where
  "row_clicked pr project st =
     (if isOpen st \<and> project \<in> set (projects pr) then row_selected project st else st)"

text \<open>
  A run of the delete confirm handler during which a project row is clicked: Confirm is
  clicked in \<open>st0\<close>, the row is clicked in the state in which the handler is suspended at
  the \<open>await\<close>, and the call then settles with the given outcome.
\<close>

definition handleConfirmDelete_row_clicked_in_flight ::
  "props \<Rightarrow> project_summary \<Rightarrow> outcome \<Rightarrow> state \<Rightarrow> state" where
  "handleConfirmDelete_row_clicked_in_flight pr project oc st0 =
     (case handleConfirmDelete_dispatch st0 of
        None \<Rightarrow> st0
      | Some st1 \<Rightarrow>
          handleConfirmDelete_settle st0 oc (mutation_settled Delete (row_clicked pr project st1)))"

lemmas menu_defs =
  onSelect_row_def onSelect_newProject_def menu_item_selected_def row_selected_def
  icon_clicked_def row_clicked_def

lemmas setter_defs =
  setIsOpen_def setShowNewProjectModal_def setProjectToDelete_def setProjectToDetach_def
  setProjectToReattach_def onSelectProject_def console_error_def

lemmas event_defs = stopPropagation_def preventDefault_def fresh_event_def

lemmas click_defs = handleDeleteClick_def handleDetachClick_def handleReattachClick_def

lemmas cancel_defs = handleCancelDelete_def onCancelDetach_def onCancelReattach_def

lemmas dispatch_defs =
  handleConfirmDelete_dispatch_def handleConfirmDetach_dispatch_def
  handleConfirmReattach_dispatch_def falsy_def mutateAsync_def

lemmas settle_defs =
  handleConfirmDelete_settle_def handleConfirmDetach_settle_def
  handleConfirmReattach_settle_def mutation_settled_def

lemmas confirm_defs =
  handleConfirmDelete_def handleConfirmDetach_def handleConfirmReattach_def

section \<open>Confirming with no pending target\<close>

text \<open>
  C9. For every action kind, the confirm handler invoked while the pending target of
  that kind is none returns at its guard: the state is unchanged as a whole, so no
  mutation call is dispatched and nothing is logged.
\<close>

theorem confirm_without_target_is_noop:
  assumes "pending k st = None"
  shows "handleConfirm_dispatch k st = None \<and> handleConfirm k oc st = st
         \<and> calls (handleConfirm k oc st) = calls st"
  using assms by (cases k) (simp_all add: dispatch_defs confirm_defs)

theorem confirm_without_target_is_noop_witness:
  "pending Detach (initial (Some ''alpha'')) = None
   \<and> handleConfirm_dispatch Detach (initial (Some ''alpha'')) = None
   \<and> handleConfirm Detach Rejected (initial (Some ''alpha'')) = initial (Some ''alpha'')
   \<and> calls (handleConfirm Detach Rejected (initial (Some ''alpha''))) = []"
proof -
  have h: "pending Detach (initial (Some ''alpha'')) = None"
    by (simp add: initial_def)
  have c: "calls (initial (Some ''alpha'')) = []"
    by (simp add: initial_def)
  show ?thesis
    using h c confirm_without_target_is_noop [OF h, of Rejected] by simp
qed

section \<open>Opening and cancelling\<close>

lemma handleClick_state:
  "snd (handleClick k e p st) = set_pending k (Some p) st"
  by (cases k) (simp_all add: click_defs)

lemma handleClick_event:
  "propagationStopped (fst (handleClick k e p st))
   \<and> defaultPrevented (fst (handleClick k e p st))"
  by (cases k) (simp_all add: click_defs event_defs)

lemma handleCancel_state:
  "handleCancel k st = set_pending k None st"
  by (cases k) (simp_all add: cancel_defs)

lemma pending_set_pending:
  "pending k (set_pending k v st) = v"
  by (cases k) (simp_all add: setter_defs)

lemma set_pending_twice:
  "set_pending k v (set_pending k w st) = set_pending k v st"
  by (cases k) (simp_all add: setter_defs)

lemma set_pending_same:
  "pending k st = v \<Longrightarrow> set_pending k v st = st"
  by (cases k) (auto simp add: setter_defs)

lemma calls_set_pending:
  "calls (set_pending k v st) = calls st"
  by (cases k) (simp_all add: setter_defs)

lemma selectedProject_set_pending:
  "selectedProject (set_pending k v st) = selectedProject st"
  by (cases k) (simp_all add: setter_defs)

lemma isOpen_set_pending:
  "isOpen (set_pending k v st) = isOpen st"
  by (cases k) (simp_all add: setter_defs)

text \<open>
  C4, as stated: from every starting state, opening a kind on a project and then
  cancelling gives the starting state back. It fails from a state in which the kind
  already has a pending target: cancelling clears it, so the earlier target is gone.
  Here the delete icon of \<open>alpha\<close> was clicked before; a click on the delete icon of
  \<open>beta\<close> followed by a cancel ends with no pending delete target.
\<close>

theorem open_cancel_not_identity_counterexample:
  "pending Delete (snd (handleClick Delete fresh_event ''alpha'' (initial None)))
     = Some ''alpha''
   \<and> pending Delete
        (handleCancel Delete
           (snd (handleClick Delete fresh_event ''beta''
              (snd (handleClick Delete fresh_event ''alpha'' (initial None))))))
      = None
   \<and> handleCancel Delete
        (snd (handleClick Delete fresh_event ''beta''
           (snd (handleClick Delete fresh_event ''alpha'' (initial None)))))
      \<noteq> snd (handleClick Delete fresh_event ''alpha'' (initial None))"
  by (simp add: click_defs cancel_defs setter_defs initial_def)

text \<open>
  C4, amended: opening a kind on a project and then cancelling gives the starting state
  with the pending target of that kind cleared, whatever it was; no mutation call is
  dispatched by either step; and from a starting state in which that kind has no pending
  target the result is the starting state itself.
\<close>

theorem open_then_cancel:
  "handleCancel k (snd (handleClick k e p st)) = set_pending k None st
   \<and> pending k (handleCancel k (snd (handleClick k e p st))) = None
   \<and> calls (snd (handleClick k e p st)) = calls st
   \<and> calls (handleCancel k (snd (handleClick k e p st))) = calls st
   \<and> (pending k st = None \<longrightarrow> handleCancel k (snd (handleClick k e p st)) = st)"
  by (simp add: handleClick_state handleCancel_state pending_set_pending set_pending_twice
      calls_set_pending set_pending_same)

theorem open_then_cancel_witness:
  "pending Reattach (initial (Some ''alpha'')) = None
   \<and> handleCancel Reattach
       (snd (handleClick Reattach fresh_event ''beta'' (initial (Some ''alpha''))))
     = initial (Some ''alpha'')"
proof -
  have h: "pending Reattach (initial (Some ''alpha'')) = None"
    by (simp add: initial_def)
  from h open_then_cancel [of Reattach fresh_event "''beta''" "initial (Some ''alpha'')"]
  show ?thesis by blast
qed

text \<open>
  C5. Opening a kind on \<open>p2\<close> while it is pending on \<open>p1\<close> makes \<open>p2\<close> the pending
  target. Nothing of \<open>p1\<close> remains: the state is the one reached by cancelling \<open>p1\<close>
  first and then opening \<open>p2\<close>, no mutation call was dispatched, and a confirm that
  follows dispatches for \<open>p2\<close> alone.
\<close>

theorem open_replaces_pending_target:
  assumes "pending k st = Some p1"
  shows "pending k (snd (handleClick k e p2 st)) = Some p2
         \<and> snd (handleClick k e p2 st) = snd (handleClick k e p2 (handleCancel k st))
         \<and> calls (snd (handleClick k e p2 st)) = calls st
         \<and> calls (handleConfirm k oc (snd (handleClick k e p2 st)))
           = calls st @ (if p2 = [] then [] else [(k, p2)])"
proof -
  have a: "pending k (snd (handleClick k e p2 st)) = Some p2"
    by (simp add: handleClick_state pending_set_pending)
  have b: "snd (handleClick k e p2 st) = snd (handleClick k e p2 (handleCancel k st))"
    by (simp add: handleClick_state handleCancel_state set_pending_twice)
  have c: "calls (snd (handleClick k e p2 st)) = calls st"
    by (simp add: handleClick_state calls_set_pending)
  have d: "calls (handleConfirm k oc (snd (handleClick k e p2 st)))
           = calls st @ (if p2 = [] then [] else [(k, p2)])"
    by (cases k; cases oc)
       (simp_all add: click_defs confirm_defs dispatch_defs settle_defs setter_defs)
  from a b c d show ?thesis by simp
qed

theorem open_replaces_pending_target_witness:
  "pending Detach (snd (handleClick Detach fresh_event ''alpha'' (initial None))) = Some ''alpha''
   \<and> pending Detach
       (snd (handleClick Detach fresh_event ''beta''
          (snd (handleClick Detach fresh_event ''alpha'' (initial None))))) = Some ''beta''
   \<and> calls (handleConfirm Detach Resolved
       (snd (handleClick Detach fresh_event ''beta''
          (snd (handleClick Detach fresh_event ''alpha'' (initial None))))))
     = [(Detach, ''beta'')]"
proof -
  have h: "pending Detach (snd (handleClick Detach fresh_event ''alpha'' (initial None)))
           = Some ''alpha''"
    by (simp add: click_defs setter_defs)
  have c: "calls (snd (handleClick Detach fresh_event ''alpha'' (initial None))) = []"
    by (simp add: click_defs setter_defs initial_def)
  note r = open_replaces_pending_target [OF h, of fresh_event "''beta''" Resolved]
  from r have a: "pending Detach
       (snd (handleClick Detach fresh_event ''beta''
          (snd (handleClick Detach fresh_event ''alpha'' (initial None))))) = Some ''beta''"
    by blast
  from r have d: "calls (handleConfirm Detach Resolved
       (snd (handleClick Detach fresh_event ''beta''
          (snd (handleClick Detach fresh_event ''alpha'' (initial None))))))
     = calls (snd (handleClick Detach fresh_event ''alpha'' (initial None)))
       @ (if ''beta'' = [] then [] else [(Detach, ''beta'')])"
    by blast
  from d c have d': "calls (handleConfirm Detach Resolved
       (snd (handleClick Detach fresh_event ''beta''
          (snd (handleClick Detach fresh_event ''alpha'' (initial None))))))
     = [(Detach, ''beta'')]"
    by simp
  from h a d' show ?thesis by blast
qed

text \<open>
  C6. A click on the delete, detach or reattach icon of a row sets the pending target of
  that kind to the row's project and changes nothing else: the handler stops the
  propagation of the click, so the row is not selected, whatever the current selection
  is, and the menu stays as it is.
\<close>

theorem icon_click_keeps_selection:
  "icon_clicked k project st = set_pending k (Some (name project)) st
   \<and> selectedProject (icon_clicked k project st) = selectedProject st
   \<and> isOpen (icon_clicked k project st) = isOpen st
   \<and> propagationStopped (fst (handleClick k fresh_event (name project) st))"
proof -
  have a: "icon_clicked k project st = set_pending k (Some (name project)) st"
    using handleClick_event [of k fresh_event "name project" st]
      handleClick_state [of k fresh_event "name project" st]
    by (simp add: icon_clicked_def case_prod_unfold)
  show ?thesis
    using handleClick_event [of k fresh_event "name project" st]
    by (simp add: a selectedProject_set_pending isOpen_set_pending)
qed

text \<open>
  C8. When the wizard yields a project name, the handler sets the selection to that name
  and closes the menu, and changes nothing else; the resulting state is the one that a
  selection of the row of a project of that name gives.
\<close>

theorem project_created_is_selection:
  "handleProjectCreated n st = st\<lparr>selectedProject := Some n, isOpen := False\<rparr>
   \<and> selectedProject (handleProjectCreated n st) = Some n
   \<and> isOpen (handleProjectCreated n st) = False
   \<and> handleProjectCreated (name project) st = row_selected project st"
  by (simp add: handleProjectCreated_def menu_defs setter_defs)

text \<open>
  C10. In every state, so in every reachable one, the \<open>isOpen\<close> prop of the confirmation
  dialog of a kind is true exactly when the pending target of that kind is not none; in
  particular this holds of the states that open, cancel and confirm lead to. The dialog
  is open after open and closed after cancel.
\<close>

theorem dialog_open_iff_pending:
  "dialog_isOpen k st = (pending k st \<noteq> None)
   \<and> dialog_isOpen k (snd (handleClick k e p st))
       = (pending k (snd (handleClick k e p st)) \<noteq> None)
   \<and> dialog_isOpen k (handleCancel k st) = (pending k (handleCancel k st) \<noteq> None)
   \<and> dialog_isOpen k (handleConfirm k oc st) = (pending k (handleConfirm k oc st) \<noteq> None)
   \<and> dialog_isOpen k (snd (handleClick k e p st))
   \<and> \<not> dialog_isOpen k (handleCancel k st)"
proof -
  have a: "dialog_isOpen k s = (pending k s \<noteq> None)" for s
    by (cases k) simp_all
  have b: "pending k (snd (handleClick k e p st)) = Some p"
    by (simp add: handleClick_state pending_set_pending)
  have c: "pending k (handleCancel k st) = None"
    by (simp add: handleCancel_state pending_set_pending)
  show ?thesis
    by (simp add: a b c)
qed

section \<open>Confirming with a pending target\<close>

lemma confirm_dispatch_cases:
  "handleConfirm_dispatch k st =
     (case pending k st of
        None \<Rightarrow> None
      | Some p \<Rightarrow> if p = [] then None else Some (mutateAsync k p st))"
  by (cases k) (simp_all add: dispatch_defs split: option.splits)

lemma confirm_run:
  "handleConfirm k oc st =
     (case handleConfirm_dispatch k st of
        None \<Rightarrow> st
      | Some st1 \<Rightarrow> handleConfirm_settle k st oc (mutation_settled k st1))"
  by (cases k) (simp_all add: confirm_defs split: option.splits)

lemma settle_clears_pending:
  "pending k (handleConfirm_settle k st0 oc st) = None"
  by (cases k; cases oc) (simp_all add: settle_defs setter_defs)

lemma settle_keeps_calls:
  "calls (handleConfirm_settle k st0 oc (mutation_settled k st)) = calls st"
  by (cases k; cases oc) (simp_all add: settle_defs setter_defs)

lemma settle_clears_isPending:
  "isPending k (handleConfirm_settle k st0 oc (mutation_settled k st)) = False"
  by (cases k; cases oc) (simp_all add: settle_defs setter_defs)

lemma mutateAsync_effect:
  "calls (mutateAsync k p st) = calls st @ [(k, p)] \<and> isPending k (mutateAsync k p st)
   \<and> pending k (mutateAsync k p st) = pending k st
   \<and> selectedProject (mutateAsync k p st) = selectedProject st"
  by (cases k) (simp_all add: mutateAsync_def)

text \<open>
  For a pending target that is not the empty string, a confirm dispatches one call for
  it and is suspended with \<open>isPending\<close> set; whatever the
  outcome, the run ends with that one call in the log, \<open>isPending\<close> cleared and the
  pending target none.
\<close>

lemma confirm_nonempty_target:
  assumes "pending k st = Some p" and "p \<noteq> []"
  shows "handleConfirm_dispatch k st = Some (mutateAsync k p st)"
    and "calls (mutateAsync k p st) = calls st @ [(k, p)]"
    and "isPending k (mutateAsync k p st)"
    and "calls (handleConfirm k oc st) = calls st @ [(k, p)]"
    and "\<not> isPending k (handleConfirm k oc st)"
    and "pending k (handleConfirm k oc st) = None"
proof -
  show d: "handleConfirm_dispatch k st = Some (mutateAsync k p st)"
    using assms by (simp add: confirm_dispatch_cases)
  show "calls (mutateAsync k p st) = calls st @ [(k, p)]"
    by (simp add: mutateAsync_effect)
  show "isPending k (mutateAsync k p st)"
    by (simp add: mutateAsync_effect)
  show "calls (handleConfirm k oc st) = calls st @ [(k, p)]"
    by (simp add: confirm_run d settle_keeps_calls mutateAsync_effect)
  show "\<not> isPending k (handleConfirm k oc st)"
    by (simp add: confirm_run d settle_clears_isPending)
  show "pending k (handleConfirm k oc st) = None"
    by (simp add: confirm_run d settle_clears_pending)
qed

text \<open>
  The guard of the confirm handlers is \<open>!projectToDelete\<close>, which also holds of the empty
  string, while the dialogs are opened by \<open>projectToDelete !== null\<close>. With the empty
  string as pending target the dialog is open and a confirm returns at the guard.
\<close>

lemma confirm_empty_target:
  assumes "pending k st = Some []"
  shows "handleConfirm_dispatch k st = None" and "handleConfirm k oc st = st"
    and "dialog_isOpen k st"
proof -
  show d: "handleConfirm_dispatch k st = None"
    using assms by (simp add: confirm_dispatch_cases)
  show "handleConfirm k oc st = st"
    by (simp add: confirm_run d)
  show "dialog_isOpen k st"
    using assms by (cases k) simp_all
qed

text \<open>
  C1. For every kind, once the mutation call of a confirm has settled, resolved or
  rejected, the pending target of that kind is none: the second part of each confirm
  handler clears it in both branches, in whatever state the settlement finds the
  component, and the dialog of that kind is closed. So every run of a confirm that
  dispatched its call ends, for both outcomes, with the pending target none.
\<close>

theorem settlement_clears_pending_target:
  "pending k (handleConfirm_settle k st0 oc st) = None
   \<and> \<not> dialog_isOpen k (handleConfirm_settle k st0 oc st)
   \<and> (pending k st = Some p \<and> handleConfirm_dispatch k st = Some st1
        \<longrightarrow> pending k (handleConfirm k oc st) = None)"
proof -
  have a: "pending k (handleConfirm_settle k st0 oc st) = None"
    by (rule settle_clears_pending)
  have b: "dialog_isOpen k s = (pending k s \<noteq> None)" for s
    by (cases k) simp_all
  have c: "handleConfirm_dispatch k st = Some st1 \<longrightarrow> pending k (handleConfirm k oc st) = None"
    by (simp add: confirm_run settle_clears_pending)
  from a b c show ?thesis by simp
qed

theorem settlement_clears_pending_target_witness:
  "pending Reattach (snd (handleClick Reattach fresh_event ''beta'' (initial None)))
     = Some ''beta''
   \<and> handleConfirm_dispatch Reattach
        (snd (handleClick Reattach fresh_event ''beta'' (initial None)))
      = Some (mutateAsync Reattach ''beta''
               (snd (handleClick Reattach fresh_event ''beta'' (initial None))))
   \<and> pending Reattach
        (handleConfirm Reattach Rejected
           (snd (handleClick Reattach fresh_event ''beta'' (initial None))))
      = None"
proof -
  let ?st = "snd (handleClick Reattach fresh_event ''beta'' (initial None))"
  have h: "pending Reattach ?st = Some ''beta''"
    by (simp add: click_defs setter_defs)
  have d: "handleConfirm_dispatch Reattach ?st = Some (mutateAsync Reattach ''beta'' ?st)"
    by (simp add: click_defs setter_defs dispatch_defs)
  from h d settlement_clears_pending_target
             [of Reattach _ Rejected ?st "''beta''" "mutateAsync Reattach ''beta'' ?st"]
  have "pending Reattach (handleConfirm Reattach Rejected ?st) = None"
    by blast
  with h d show ?thesis by blast
qed

text \<open>
  C3. The claim: for every kind and every project name that is the pending target, one
  confirm dispatches exactly one mutation call. Here the detach icon of a project named
  by the empty string was clicked: a confirm dispatches no call at all, the log of calls
  stays empty and \<open>isPending\<close> is never set.
\<close>

theorem confirm_empty_name_dispatches_nothing:
  "pending Detach (snd (handleClick Detach fresh_event '''' (initial None))) = Some ''''
   \<and> handleConfirm_dispatch Detach (snd (handleClick Detach fresh_event '''' (initial None)))
      = None
   \<and> calls (handleConfirm Detach Resolved
        (snd (handleClick Detach fresh_event '''' (initial None)))) = []
   \<and> calls (handleConfirm Detach Rejected
        (snd (handleClick Detach fresh_event '''' (initial None)))) = []"
  by (simp add: click_defs setter_defs confirm_defs dispatch_defs initial_def)

section \<open>Deleting and the selection\<close>

text \<open>
  What the second part of the delete handler does to the selection: it compares the
  selection and the target of the state in which Confirm was clicked.
\<close>

lemma delete_settle_selection:
  "selectedProject (handleConfirmDelete_settle st0 oc st) =
     (if oc = Resolved \<and> selectedProject st0 = projectToDelete st0 then None
      else selectedProject st)"
  by (cases oc) (simp_all add: settle_defs setter_defs)

text \<open>
  A run of the delete handler in which nothing happens between the click on Confirm and
  the settlement, with \<open>p\<close> the pending target: if the call was dispatched and resolved
  and the selection is \<open>p\<close>, the selection becomes none; if the selection is not \<open>p\<close>,
  it is unchanged whatever the outcome; if the call rejected, the selection is unchanged;
  and it is unchanged in the state in which the handler is suspended.
\<close>

lemma delete_reconciles_selection_one_step:
  assumes "projectToDelete st = Some p"
  shows "(handleConfirmDelete_dispatch st \<noteq> None \<and> selectedProject st = Some p
            \<longrightarrow> selectedProject (handleConfirmDelete Resolved st) = None)
         \<and> (selectedProject st \<noteq> Some p
            \<longrightarrow> selectedProject (handleConfirmDelete oc st) = selectedProject st)
         \<and> selectedProject (handleConfirmDelete Rejected st) = selectedProject st
         \<and> (handleConfirmDelete_dispatch st = Some st1
            \<longrightarrow> selectedProject st1 = selectedProject st)"
proof -
  have run: "handleConfirmDelete oc' st =
       (case handleConfirmDelete_dispatch st of
          None \<Rightarrow> st
        | Some s \<Rightarrow> handleConfirmDelete_settle st oc' (mutation_settled Delete s))" for oc'
    by (simp add: handleConfirmDelete_def)
  have sel: "selectedProject (mutation_settled Delete (mutateAsync Delete q st))
             = selectedProject st" for q
    by (simp add: mutation_settled_def mutateAsync_def)
  have disp: "handleConfirmDelete_dispatch st
              = (if p = [] then None else Some (mutateAsync Delete p st))"
    using assms by (simp add: dispatch_defs)
  have a: "handleConfirmDelete_dispatch st \<noteq> None \<and> selectedProject st = Some p
            \<longrightarrow> selectedProject (handleConfirmDelete Resolved st) = None"
    using assms by (auto simp add: run disp delete_settle_selection)
  have b: "selectedProject st \<noteq> Some p
            \<longrightarrow> selectedProject (handleConfirmDelete oc st) = selectedProject st"
    using assms by (auto simp add: run disp delete_settle_selection sel)
  have c: "selectedProject (handleConfirmDelete Rejected st) = selectedProject st"
    by (auto simp add: run disp delete_settle_selection sel)
  have d: "handleConfirmDelete_dispatch st = Some st1
            \<longrightarrow> selectedProject st1 = selectedProject st"
    by (auto simp add: disp mutateAsync_def split: if_splits)
  from a b c d show ?thesis by blast
qed

text \<open>
  C2. The claim: when the delete of \<open>p\<close> succeeds and the current selection is \<open>p\<close>, the
  selection becomes none, and a selection that is not \<open>p\<close> is left as it is. After the
  \<open>await\<close> the handler compares the \<open>selectedProject\<close> of its closure, the selection
  of the moment Confirm was clicked. Two runs with the menu open, the delete of \<open>alpha\<close>
  confirmed and resolved, and a row clicked while the call is in flight. In the first,
  \<open>alpha\<close> is selected at the confirm and the row of \<open>beta\<close> is clicked: the selection
  is \<open>beta\<close> when the call settles, and the handler clears it. In the second, \<open>beta\<close>
  is selected at the confirm and the row of \<open>alpha\<close> is clicked: the selection is
  \<open>alpha\<close> when the call settles, and it stays \<open>alpha\<close> after the delete of \<open>alpha\<close>
  has succeeded.
\<close>

theorem delete_compares_selection_of_confirm_time:
  "handleConfirmDelete_dispatch (snd (handleDeleteClick fresh_event ''alpha'' (setIsOpen True (initial (Some ''alpha'')))))
     = Some (mutateAsync Delete ''alpha'' (snd (handleDeleteClick fresh_event ''alpha'' (setIsOpen True (initial (Some ''alpha''))))))
   \<and> selectedProject
     (row_clicked
      \<lparr> projects =
        [\<lparr> name = ''alpha'', path = ''/a'', is_detached = False,
          stats = \<lparr> stats_total = 10, stats_passing = 8, stats_percentage = 80 \<rparr> \<rparr>,
         \<lparr> name = ''beta'', path = ''/b'', is_detached = True,
          stats = \<lparr> stats_total = 0, stats_passing = 0, stats_percentage = 0 \<rparr> \<rparr>],
        isLoading = False \<rparr>
      \<lparr> name = ''beta'', path = ''/b'', is_detached = True,
         stats = \<lparr> stats_total = 0, stats_passing = 0, stats_percentage = 0 \<rparr> \<rparr>
      (mutateAsync Delete ''alpha'' (snd (handleDeleteClick fresh_event ''alpha'' (setIsOpen True (initial (Some ''alpha'')))))))
     = Some ''beta''
   \<and> selectedProject
     (handleConfirmDelete_row_clicked_in_flight
      \<lparr> projects =
        [\<lparr> name = ''alpha'', path = ''/a'', is_detached = False,
          stats = \<lparr> stats_total = 10, stats_passing = 8, stats_percentage = 80 \<rparr> \<rparr>,
         \<lparr> name = ''beta'', path = ''/b'', is_detached = True,
          stats = \<lparr> stats_total = 0, stats_passing = 0, stats_percentage = 0 \<rparr> \<rparr>],
        isLoading = False \<rparr>
      \<lparr> name = ''beta'', path = ''/b'', is_detached = True,
         stats = \<lparr> stats_total = 0, stats_passing = 0, stats_percentage = 0 \<rparr> \<rparr>
      Resolved
      (snd (handleDeleteClick fresh_event ''alpha'' (setIsOpen True (initial (Some ''alpha''))))))
     = None
   \<and> handleConfirmDelete_dispatch (snd (handleDeleteClick fresh_event ''alpha'' (setIsOpen True (initial (Some ''beta'')))))
     = Some (mutateAsync Delete ''alpha'' (snd (handleDeleteClick fresh_event ''alpha'' (setIsOpen True (initial (Some ''beta''))))))
   \<and> selectedProject
     (row_clicked
      \<lparr> projects =
        [\<lparr> name = ''alpha'', path = ''/a'', is_detached = False,
          stats = \<lparr> stats_total = 10, stats_passing = 8, stats_percentage = 80 \<rparr> \<rparr>,
         \<lparr> name = ''beta'', path = ''/b'', is_detached = True,
          stats = \<lparr> stats_total = 0, stats_passing = 0, stats_percentage = 0 \<rparr> \<rparr>],
        isLoading = False \<rparr>
      \<lparr> name = ''alpha'', path = ''/a'', is_detached = False,
         stats = \<lparr> stats_total = 10, stats_passing = 8, stats_percentage = 80 \<rparr> \<rparr>
      (mutateAsync Delete ''alpha'' (snd (handleDeleteClick fresh_event ''alpha'' (setIsOpen True (initial (Some ''beta'')))))))
     = Some ''alpha''
   \<and> selectedProject
     (handleConfirmDelete_row_clicked_in_flight
      \<lparr> projects =
        [\<lparr> name = ''alpha'', path = ''/a'', is_detached = False,
          stats = \<lparr> stats_total = 10, stats_passing = 8, stats_percentage = 80 \<rparr> \<rparr>,
         \<lparr> name = ''beta'', path = ''/b'', is_detached = True,
          stats = \<lparr> stats_total = 0, stats_passing = 0, stats_percentage = 0 \<rparr> \<rparr>],
        isLoading = False \<rparr>
      \<lparr> name = ''alpha'', path = ''/a'', is_detached = False,
         stats = \<lparr> stats_total = 10, stats_passing = 8, stats_percentage = 80 \<rparr> \<rparr>
      Resolved
      (snd (handleDeleteClick fresh_event ''alpha'' (setIsOpen True (initial (Some ''beta''))))))
     = Some ''alpha''
   \<and> calls
     (handleConfirmDelete_row_clicked_in_flight
      \<lparr> projects =
        [\<lparr> name = ''alpha'', path = ''/a'', is_detached = False,
          stats = \<lparr> stats_total = 10, stats_passing = 8, stats_percentage = 80 \<rparr> \<rparr>,
         \<lparr> name = ''beta'', path = ''/b'', is_detached = True,
          stats = \<lparr> stats_total = 0, stats_passing = 0, stats_percentage = 0 \<rparr> \<rparr>],
        isLoading = False \<rparr>
      \<lparr> name = ''alpha'', path = ''/a'', is_detached = False,
         stats = \<lparr> stats_total = 10, stats_passing = 8, stats_percentage = 80 \<rparr> \<rparr>
      Resolved
      (snd (handleDeleteClick fresh_event ''alpha'' (setIsOpen True (initial (Some ''beta''))))))
     = [(Delete, ''alpha'')]"
  by (simp add: handleConfirmDelete_row_clicked_in_flight_def click_defs setter_defs
      dispatch_defs settle_defs menu_defs initial_def)

section \<open>Selecting a project row\<close>

text \<open>
  C7, as stated: the selection of a row is disabled whenever \<open>isLoading\<close> is true. In
  the source \<open>disabled={isLoading}\<close> is on the button of the menu's trigger; the rows
  carry no \<open>disabled\<close> prop. Here the menu is open (it has called \<open>onOpenChange(true)\<close>,
  which is \<open>setIsOpen(true)\<close>), nothing is selected and \<open>isLoading\<close> is true: a click
  on the row of a project of the list selects it.
\<close>

theorem row_click_while_loading_counterexample:
  "isLoading
     \<lparr> projects =
        [\<lparr> name = ''alpha'', path = ''/a'', is_detached = False,
          stats = \<lparr> stats_total = 10, stats_passing = 8, stats_percentage = 80 \<rparr> \<rparr>],
        isLoading = True \<rparr>
   \<and> isOpen (setIsOpen True (initial None))
   \<and> selectedProject (setIsOpen True (initial None)) = None
   \<and> selectedProject
       (row_clicked
          \<lparr> projects =
        [\<lparr> name = ''alpha'', path = ''/a'', is_detached = False,
          stats = \<lparr> stats_total = 10, stats_passing = 8, stats_percentage = 80 \<rparr> \<rparr>],
        isLoading = True \<rparr>
          \<lparr> name = ''alpha'', path = ''/a'', is_detached = False,
         stats = \<lparr> stats_total = 10, stats_passing = 8, stats_percentage = 80 \<rparr> \<rparr>
          (setIsOpen True (initial None)))
     = Some ''alpha''"
  by (simp add: menu_defs setter_defs initial_def)

text \<open>
  C7, amended: a click on the row of a project of the list, in the open menu, sets the
  selection to the project's name and closes the menu, and changes nothing else; this
  transition does not depend on \<open>isLoading\<close>, so it is not disabled while \<open>isLoading\<close>
  is true.
\<close>

theorem row_click_selects_and_closes:
  "(project \<in> set (projects pr) \<and> isOpen st
      \<longrightarrow> selectedProject (row_clicked pr project st) = Some (name project)
          \<and> \<not> isOpen (row_clicked pr project st)
          \<and> row_clicked pr project st
            = st\<lparr>selectedProject := Some (name project), isOpen := False\<rparr>)
   \<and> row_clicked (pr\<lparr>isLoading := b\<rparr>) project st = row_clicked pr project st"
  by (simp add: menu_defs setter_defs)

theorem row_click_selects_and_closes_witness:
  "\<lparr> name = ''beta'', path = ''/b'', is_detached = True,
         stats = \<lparr> stats_total = 0, stats_passing = 0, stats_percentage = 0 \<rparr> \<rparr>
     \<in> set (projects
        \<lparr> projects =
        [\<lparr> name = ''beta'', path = ''/b'', is_detached = True,
          stats = \<lparr> stats_total = 0, stats_passing = 0, stats_percentage = 0 \<rparr> \<rparr>],
        isLoading = True \<rparr>)
   \<and> isOpen (setIsOpen True (initial (Some ''alpha'')))
   \<and> selectedProject
       (row_clicked
          \<lparr> projects =
        [\<lparr> name = ''beta'', path = ''/b'', is_detached = True,
          stats = \<lparr> stats_total = 0, stats_passing = 0, stats_percentage = 0 \<rparr> \<rparr>],
        isLoading = True \<rparr>
          \<lparr> name = ''beta'', path = ''/b'', is_detached = True,
         stats = \<lparr> stats_total = 0, stats_passing = 0, stats_percentage = 0 \<rparr> \<rparr>
          (setIsOpen True (initial (Some ''alpha''))))
     = Some ''beta''
   \<and> \<not> isOpen
       (row_clicked
          \<lparr> projects =
        [\<lparr> name = ''beta'', path = ''/b'', is_detached = True,
          stats = \<lparr> stats_total = 0, stats_passing = 0, stats_percentage = 0 \<rparr> \<rparr>],
        isLoading = True \<rparr>
          \<lparr> name = ''beta'', path = ''/b'', is_detached = True,
         stats = \<lparr> stats_total = 0, stats_passing = 0, stats_percentage = 0 \<rparr> \<rparr>
          (setIsOpen True (initial (Some ''alpha''))))"
proof -
  let ?p = "\<lparr> name = ''beta'', path = ''/b'', is_detached = True,
         stats = \<lparr> stats_total = 0, stats_passing = 0, stats_percentage = 0 \<rparr> \<rparr>"
  let ?pr = "\<lparr> projects =
        [\<lparr> name = ''beta'', path = ''/b'', is_detached = True,
          stats = \<lparr> stats_total = 0, stats_passing = 0, stats_percentage = 0 \<rparr> \<rparr>],
        isLoading = True \<rparr>"
  let ?st = "setIsOpen True (initial (Some ''alpha''))"
  have m: "?p \<in> set (projects ?pr)" by simp
  have o: "isOpen ?st" by (simp add: setter_defs)
  from m o row_click_selects_and_closes [of ?p ?pr ?st]
  have a: "selectedProject (row_clicked ?pr ?p ?st) = Some (name ?p)"
    and c: "\<not> isOpen (row_clicked ?pr ?p ?st)"
    by blast+
  from a have a': "selectedProject (row_clicked ?pr ?p ?st) = Some ''beta''" by simp
  from m o a' c show ?thesis by blast
qed

end
